theory Spec2Isabelle
  imports Main
begin

section \<open>JavaScript strings and values used by server.js\<close>

text \<open>
  A JavaScript string is a sequence of UTF-16 code units. The model uses \<open>string\<close>
  (a list of 8-bit characters) and reads each character as the code unit of the same
  number, so it covers exactly the strings whose code units are below 256 (ASCII and
  Latin-1). On these strings \<open>toLowerCase\<close>, \<open>trim\<close> and \<open>str_includes\<close> below
  compute what \<open>String.prototype.toLowerCase\<close>, \<open>String.prototype.trim\<close> and
  \<open>String.prototype.includes\<close> compute.
\<close>

definition is_upper :: "char \<Rightarrow> bool" where
  "is_upper c =
     (let n = (of_char c :: nat)
      in (65 \<le> n \<and> n \<le> 90) \<or> (192 \<le> n \<and> n \<le> 214) \<or> (216 \<le> n \<and> n \<le> 222))"

definition lower_unit :: "char \<Rightarrow> char" where
  "lower_unit c = (if is_upper c then char_of ((of_char c :: nat) + 32) else c)"

definition toLowerCase :: "string \<Rightarrow> string" where
  "toLowerCase s = map lower_unit s"

text \<open>
  White space and line terminators of ECMAScript, among the code units below 256:
  TAB, LF, VT, FF, CR, SP and NBSP.
\<close>

definition is_ws :: "char \<Rightarrow> bool" where
  "is_ws c = ((of_char c :: nat) \<in> {9, 10, 11, 12, 13, 32, 160})"

definition trim :: "string \<Rightarrow> string" where
  "trim s = rev (dropWhile is_ws (rev (dropWhile is_ws s)))"

fun starts_with :: "string \<Rightarrow> string \<Rightarrow> bool" where
  "starts_with s [] = True"
| "starts_with [] (y # ys) = False"
| "starts_with (x # xs) (y # ys) = (x = y \<and> starts_with xs ys)"

fun str_includes :: "string \<Rightarrow> string \<Rightarrow> bool" where
  "str_includes [] sub = (sub = [])"
| "str_includes (c # cs) sub = (starts_with (c # cs) sub \<or> str_includes cs sub)"

text \<open>
  The values a property read on the \<open>menus\<close> object can give: a string, nothing
  (\<open>undefined\<close>), or one of the built-in functions and objects that every object
  literal inherits from \<open>Object.prototype\<close>.
\<close>

datatype jsval =
    Undefined
  | Str string
  | BuiltinFunction string
  | BuiltinObject string

fun truthy :: "jsval \<Rightarrow> bool" where
  "truthy Undefined = False"
| "truthy (Str s) = (s \<noteq> [])"
| "truthy (BuiltinFunction f) = True"
| "truthy (BuiltinObject b) = True"

text \<open>\<open>typeof v === "string"\<close>.\<close>

fun is_string :: "jsval \<Rightarrow> bool" where
  "is_string (Str s) = True"
| "is_string v = False"

section \<open>The menu tool\<close>

text \<open>The own properties of the object literal \<open>menus\<close>, in source order.\<close>

definition menus :: "(string \<times> jsval) list" where
  "menus =
     [(''breakfast'', Str ''Paratha, Tea, Fruits, Bread with Butter''),
      (''lunch'', Str ''Rice, Dal, Curry, Roti, Salad''),
      (''evening'', Str ''Samosa, Chutney, Tea, Biscuits''),
      (''evening snacks'', Str ''Samosa, Chutney, Tea, Biscuits''),
      (''dinner'', Str ''Biryani, Raita, Papad, Salad'')]"

text \<open>
  \<open>menus\<close> is an object literal, so its prototype is \<open>Object.prototype\<close> and a
  property read that finds no own property continues there. These are the properties
  of \<open>Object.prototype\<close> (ECMAScript, with its annex B).
\<close>

definition object_prototype :: "(string \<times> jsval) list" where
  "object_prototype =
     [(''constructor'', BuiltinFunction ''Object''),
      (''__proto__'', BuiltinObject ''Object.prototype''),
      (''__defineGetter__'', BuiltinFunction ''Object.prototype.__defineGetter__''),
      (''__defineSetter__'', BuiltinFunction ''Object.prototype.__defineSetter__''),
      (''__lookupGetter__'', BuiltinFunction ''Object.prototype.__lookupGetter__''),
      (''__lookupSetter__'', BuiltinFunction ''Object.prototype.__lookupSetter__''),
      (''hasOwnProperty'', BuiltinFunction ''Object.prototype.hasOwnProperty''),
      (''isPrototypeOf'', BuiltinFunction ''Object.prototype.isPrototypeOf''),
      (''propertyIsEnumerable'', BuiltinFunction ''Object.prototype.propertyIsEnumerable''),
      (''toLocaleString'', BuiltinFunction ''Object.prototype.toLocaleString''),
      (''toString'', BuiltinFunction ''Object.prototype.toString''),
      (''valueOf'', BuiltinFunction ''Object.prototype.valueOf'')]"

text \<open>The property read \<open>obj[key]\<close> on an object literal with own properties \<open>obj\<close>.\<close>

definition get_property :: "(string \<times> jsval) list \<Rightarrow> string \<Rightarrow> jsval" where
  "get_property obj key =
     (case map_of obj key of
        Some v \<Rightarrow> v
      | None \<Rightarrow> (case map_of object_prototype key of Some v \<Rightarrow> v | None \<Rightarrow> Undefined))"

definition fallback_message :: string where
  "fallback_message =
     ''Sorry, we couldn't find the menu for that category. Available categories: breakfast, lunch, evening snacks, dinner''"

text \<open>
  \<open>getMenuTool.func\<close>. The tool's schema is \<open>z.string()\<close>, so \<open>category\<close> is a
  string; on a string neither \<open>toLowerCase\<close>, \<open>trim\<close>, \<open>includes\<close> nor the
  property read raises, so the function is total. \<open>a || b\<close> gives \<open>a\<close> when it is
  truthy and \<open>b\<close> otherwise.
\<close>

definition getMenuTool_func :: "string \<Rightarrow> jsval" where
  "getMenuTool_func category =
     (let normalizedCategory = trim (toLowerCase category)
      in if str_includes normalizedCategory ''evening'' \<or> str_includes normalizedCategory ''snack''
         then get_property menus ''evening''
         else (let v = get_property menus normalizedCategory
               in if truthy v then v else Str fallback_message))"

section \<open>The chat endpoint\<close>

text \<open>
  JSON values, as \<open>express.json()\<close> parses them from the request. Numbers are
  restricted to integers, for which \<open>!n\<close> holds exactly when \<open>n = 0\<close>. A value of
  type \<open>json option\<close> is a JavaScript value that may be \<open>undefined\<close> (\<open>None\<close>).
\<close>

datatype json =
    JNull
  | JBool bool
  | JNum int
  | JStr string
  | JArr "json list"
  | JObj "(string \<times> json) list"

datatype js_error = TypeError string

text \<open>
  \<open>req.body.input\<close>, the first statement of the handler. \<open>req.body\<close> is what the
  body parser left there: the parsed JSON value, or \<open>undefined\<close> when no body was
  parsed and the parser does not put an empty object in its place (the version of
  express is not fixed by the repository; version 4 always leaves an object, version 5
  leaves \<open>undefined\<close>). Reading a property of \<open>undefined\<close> or \<open>null\<close> throws a
  \<open>TypeError\<close>. On an object the read gives the value of the member \<open>input\<close>
  (the last one, as \<open>JSON.parse\<close> keeps it, when the text repeats the key) or
  \<open>undefined\<close>; arrays, strings, numbers and booleans have no property \<open>input\<close>.
\<close>

fun read_input :: "json option \<Rightarrow> js_error + json option" where
  "read_input None = Inl (TypeError ''Cannot read properties of undefined (reading 'input')'')"
| "read_input (Some JNull) = Inl (TypeError ''Cannot read properties of null (reading 'input')'')"
| "read_input (Some (JObj kvs)) = Inr (map_of (rev kvs) ''input'')"
| "read_input (Some v) = Inr None"

text \<open>\<open>!userInput\<close>: the falsy values are \<open>undefined\<close>, \<open>null\<close>, \<open>false\<close>, \<open>0\<close> and \<open>""\<close>.\<close>

fun js_not :: "json option \<Rightarrow> bool" where
  "js_not None = True"
| "js_not (Some JNull) = True"
| "js_not (Some (JBool b)) = (\<not> b)"
| "js_not (Some (JNum n)) = (n = 0)"
| "js_not (Some (JStr s)) = (s = [])"
| "js_not (Some (JArr xs)) = False"
| "js_not (Some (JObj kvs)) = False"

text \<open>
  \<open>userInput.trim()\<close>: only a string has a callable \<open>trim\<close>. On a boolean, a
  number, an array or an object parsed from JSON the property is \<open>undefined\<close> or a
  JSON value, and calling it throws a \<open>TypeError\<close>.
\<close>

fun call_trim :: "json option \<Rightarrow> js_error + string" where
  "call_trim (Some (JStr s)) = Inr (trim s)"
| "call_trim v = Inl (TypeError ''userInput.trim is not a function'')"

text \<open>
  Modelled from the spec: the type of the value that \<open>executor.invoke\<close> of the agent
  library resolves to, which the repository does not declare. Data model of the spec:
  AgentResult is \<open>{ output?: string, intermediateSteps?: ordered sequence of
  {action, observation} }\<close>, where a step's observation may be absent. The handler
  never reads \<open>action\<close>.
\<close>

record step =
  action :: string
  observation :: "string option"

record agent_result =
  "output" :: "string option"
  intermediateSteps :: "step list option"

text \<open>
  What the handler does besides responding, in order: its two \<open>console.log\<close> calls,
  the call of \<open>executor.invoke\<close> and the \<open>console.error\<close> of the catch block. The
  type \<open>'e\<close> is that of the values the agent library may throw.
\<close>

datatype 'e event =
    ConsoleLog_UserInput "json option"
  | ExecutorInvoke "json option"
  | ConsoleLog_AgentResponse agent_result
  | ConsoleError 'e

text \<open>
  The handler either sends a response (status code and JSON body; \<open>res.json\<close> without
  \<open>res.status\<close> sends 200), or an exception leaves the \<open>async\<close> function before any
  response is sent.
\<close>

datatype outcome =
    Responded nat json
  | Rejected js_error

definition output_body :: "string \<Rightarrow> json" where
  "output_body s = JObj [(''output'', JStr s)]"

text \<open>The one response contract: an object whose only field, \<open>output\<close>, is a string.\<close>

fun is_chat_response :: "json \<Rightarrow> bool" where
  "is_chat_response (JObj [(k, JStr s)]) = (k = ''output'')"
| "is_chat_response v = False"

definition invalid_input_message :: string where
  "invalid_input_message = ''Please provide a valid input.''"

definition sentinel :: string where
  "sentinel = ''agent stopped due to max iterations''"

definition could_not_process_message :: string where
  "could_not_process_message =
     ''I couldn't process your request. Please try asking for a specific menu like 'breakfast menu' or 'evening snacks menu'.''"

definition retry_message :: string where
  "retry_message =
     ''Sorry, something went wrong. Please try again with a specific menu request.''"

text \<open>
  \<open>response.output && !response.output.includes(sentinel)\<close>: an absent and an empty
  \<open>output\<close> are both falsy.
\<close>

definition primary_output :: "agent_result \<Rightarrow> string option" where
  "primary_output response =
     (case output response of
        None \<Rightarrow> None
      | Some out \<Rightarrow> if out \<noteq> [] \<and> \<not> str_includes out sentinel then Some out else None)"

text \<open>
  The fallback block: \<open>intermediateSteps\<close> present with \<open>length > 0\<close>, then the step
  at index \<open>length - 1\<close> and its \<open>observation\<close>, which must be truthy.
\<close>

definition fallback_output :: "agent_result \<Rightarrow> string option" where
  "fallback_output response =
     (case intermediateSteps response of
        None \<Rightarrow> None
      | Some steps \<Rightarrow>
          if length steps > 0
          then (case observation (steps ! (length steps - 1)) of
                  None \<Rightarrow> None
                | Some obs \<Rightarrow> if obs \<noteq> [] then Some obs else None)
          else None)"

text \<open>The three returns of the \<open>try\<close> block, in source order.\<close>

definition interpret_result :: "agent_result \<Rightarrow> outcome" where
  "interpret_result response =
     (case primary_output response of
        Some out \<Rightarrow> Responded 200 (output_body out)
      | None \<Rightarrow>
          (case fallback_output response of
             Some obs \<Rightarrow> Responded 200 (output_body obs)
           | None \<Rightarrow> Responded 500 (output_body could_not_process_message)))"

text \<open>
  The handler of \<open>POST /api/chat\<close>, from its first statement. \<open>body\<close> is
  \<open>req.body\<close>. The agent executor is a parameter: \<open>executor_invoke u\<close> is what
  \<open>await executor.invoke({ input: u })\<close> does, either throwing (\<open>Inl\<close>) or
  resolving to a result (\<open>Inr\<close>). The read of \<open>req.body.input\<close> and the validation
  stand before the \<open>try\<close>, so an exception there is not caught: the handler ends
  without a response.
\<close>

definition chat_handler ::
  "(json option \<Rightarrow> 'e + agent_result) \<Rightarrow> json option \<Rightarrow> 'e event list \<times> outcome" where
  "chat_handler executor_invoke body =
     (case read_input body of
        Inl err \<Rightarrow> ([], Rejected err)
      | Inr userInput \<Rightarrow>
          (let trace = [ConsoleLog_UserInput userInput]
           in if js_not userInput
              then (trace, Responded 400 (output_body invalid_input_message))
              else
                (case call_trim userInput of
                   Inl err \<Rightarrow> (trace, Rejected err)
                 | Inr trimmed \<Rightarrow>
                     if trimmed = []
                     then (trace, Responded 400 (output_body invalid_input_message))
                     else
                       (case executor_invoke userInput of
                          Inl err \<Rightarrow>
                            (trace @ [ExecutorInvoke userInput, ConsoleError err],
                             Responded 500 (output_body retry_message))
                        | Inr response \<Rightarrow>
                            (trace @ [ExecutorInvoke userInput, ConsoleLog_AgentResponse response],
                             interpret_result response)))))"

text \<open>Two executors for concrete runs: one that resolves to a given result, one that throws.\<close>

definition resolving :: "agent_result \<Rightarrow> json option \<Rightarrow> 'e + agent_result" where
  "resolving r u = Inr r"

definition throwing :: "'e \<Rightarrow> json option \<Rightarrow> 'e + agent_result" where
  "throwing e u = Inl e"

section \<open>Substring search and trimming\<close>

text \<open>\<open>starts_with\<close> and \<open>str_includes\<close> are the prefix and the substring test.\<close>

lemma starts_with_iff: "starts_with s sub \<longleftrightarrow> (\<exists>q. s = sub @ q)"
  by (induction s sub rule: starts_with.induct) auto

lemma str_includes_iff: "str_includes s sub \<longleftrightarrow> (\<exists>p q. s = p @ sub @ q)"
proof (induction s)
  case Nil
  then show ?case by auto
next
  case (Cons c cs)
  show ?case
  proof
    assume "str_includes (c # cs) sub"
    then consider "starts_with (c # cs) sub" | "str_includes cs sub" by auto
    then show "\<exists>p q. c # cs = p @ sub @ q"
    proof cases
      case 1
      then obtain q where "c # cs = sub @ q" by (auto simp: starts_with_iff)
      then have "c # cs = [] @ sub @ q" by simp
      then show ?thesis by blast
    next
      case 2
      then obtain p q where "cs = p @ sub @ q" using Cons.IH by blast
      then have "c # cs = (c # p) @ sub @ q" by simp
      then show ?thesis by blast
    qed
  next
    assume "\<exists>p q. c # cs = p @ sub @ q"
    then obtain p q where pq: "c # cs = p @ sub @ q" by blast
    show "str_includes (c # cs) sub"
    proof (cases p)
      case Nil
      with pq have "starts_with (c # cs) sub" by (auto simp: starts_with_iff)
      then show ?thesis by simp
    next
      case (Cons a p')
      with pq have "cs = p' @ sub @ q" by simp
      then have "str_includes cs sub" using Cons.IH by blast
      then show ?thesis by simp
    qed
  qed
qed

text \<open>
  Trimming removes white space at the two ends only: a substring that neither starts
  nor ends with white space survives it.
\<close>

lemma dropWhile_keeps_infix:
  assumes "sub \<noteq> []" and "\<not> P (hd sub)"
  shows "\<exists>p'. dropWhile P (p @ sub @ q) = p' @ sub @ q"
proof (cases "\<forall>x\<in>set p. P x")
  case True
  from assms obtain a as where sub: "sub = a # as" and "\<not> P a" by (cases sub) auto
  with True have "dropWhile P (p @ sub @ q) = [] @ sub @ q" by simp
  then show ?thesis by blast
next
  case False
  then obtain x where "x \<in> set p" and "\<not> P x" by blast
  then have "dropWhile P (p @ sub @ q) = dropWhile P p @ sub @ q"
    by (rule dropWhile_append1)
  then show ?thesis by blast
qed

lemma trim_keeps_infix:
  assumes "sub \<noteq> []" and "\<not> is_ws (hd sub)" and "\<not> is_ws (last sub)"
  shows "\<exists>p' q'. trim (p @ sub @ q) = p' @ sub @ q'"
proof -
  obtain p' where p': "dropWhile is_ws (p @ sub @ q) = p' @ sub @ q"
    using dropWhile_keeps_infix [of sub is_ws p q] assms(1,2) by blast
  have "rev sub \<noteq> []" and "\<not> is_ws (hd (rev sub))"
    using assms by (simp_all add: hd_rev)
  then obtain q' where q': "dropWhile is_ws (rev q @ rev sub @ rev p') = q' @ rev sub @ rev p'"
    using dropWhile_keeps_infix [of "rev sub" is_ws "rev q" "rev p'"] by blast
  have "trim (p @ sub @ q) = rev (dropWhile is_ws (rev q @ rev sub @ rev p'))"
    by (simp add: trim_def p')
  also have "\<dots> = p' @ sub @ rev q'" by (simp add: q')
  finally show ?thesis by blast
qed

lemma str_includes_trim:
  assumes "str_includes s sub" and "sub \<noteq> []" and "\<not> is_ws (hd sub)" and "\<not> is_ws (last sub)"
  shows "str_includes (trim s) sub"
proof -
  obtain p q where "s = p @ sub @ q" using assms(1) unfolding str_includes_iff by blast
  moreover obtain p' q' where "trim (p @ sub @ q) = p' @ sub @ q'"
    using trim_keeps_infix [of sub p q] assms(2-4) by blast
  ultimately show ?thesis unfolding str_includes_iff by blast
qed

lemma toLowerCase_append: "toLowerCase (xs @ ys) = toLowerCase xs @ toLowerCase ys"
  by (simp add: toLowerCase_def)

lemma str_includes_normalized:
  assumes "category = p @ sub @ q" and "toLowerCase sub = k"
    and "k \<noteq> []" and "\<not> is_ws (hd k)" and "\<not> is_ws (last k)"
  shows "str_includes (trim (toLowerCase category)) k"
proof -
  have "toLowerCase category = toLowerCase p @ k @ toLowerCase q"
    using assms(1,2) by (simp add: toLowerCase_append)
  then have "str_includes (toLowerCase category) k"
    unfolding str_includes_iff by blast
  then show ?thesis using assms(3-5) by (rule str_includes_trim)
qed

section \<open>The menu tool: evening and snack\<close>

lemma not_ws_evening: "\<not> is_ws (hd ''evening'')" "\<not> is_ws (last ''evening'')"
  by (simp_all add: is_ws_def)

lemma not_ws_snack: "\<not> is_ws (hd ''snack'')" "\<not> is_ws (last ''snack'')"
  by (simp_all add: is_ws_def)

lemma evening_entry: "get_property menus ''evening'' = Str ''Samosa, Chutney, Tea, Biscuits''"
  by (simp add: get_property_def menus_def)

text \<open>
  Claim C3. Every category that contains "evening" or "snack" in any letter case, at any
  position (\<open>category = p @ sub @ q\<close>, where \<open>sub\<close> lowercases to one of the two
  words), gets the same result as the category "evening", which is the evening entry of
  the menu.
\<close>

theorem getMenuTool_func_evening_or_snack:
  assumes "category = p @ sub @ q"
    and "toLowerCase sub = ''evening'' \<or> toLowerCase sub = ''snack''"
  shows "getMenuTool_func category = getMenuTool_func ''evening''
       \<and> getMenuTool_func category = Str ''Samosa, Chutney, Tea, Biscuits''"
proof -
  have inc: "str_includes (trim (toLowerCase category)) ''evening''
           \<or> str_includes (trim (toLowerCase category)) ''snack''"
    using assms str_includes_normalized [OF assms(1)] not_ws_evening not_ws_snack
    by (metis list.distinct(1))
  then have "getMenuTool_func category = get_property menus ''evening''"
    by (simp add: getMenuTool_func_def)
  moreover have "getMenuTool_func ''evening'' = get_property menus ''evening''"
    by code_simp
  ultimately show ?thesis by (simp add: evening_entry)
qed

text \<open>The two examples of the specification: "Evening Snacks" and "  snack  ".\<close>

theorem getMenuTool_func_evening_or_snack_witness:
  "getMenuTool_func ''Evening Snacks'' = getMenuTool_func ''evening''
   \<and> getMenuTool_func ''  snack  '' = getMenuTool_func ''evening''
   \<and> getMenuTool_func ''evening'' = Str ''Samosa, Chutney, Tea, Biscuits''"
proof -
  have a: "''Evening Snacks'' = [] @ ''Evening'' @ '' Snacks''" by simp
  have b: "toLowerCase ''Evening'' = ''evening'' \<or> toLowerCase ''Evening'' = ''snack''"
    by code_simp
  have c: "''  snack  '' = ''  '' @ ''snack'' @ ''  ''" by simp
  have d: "toLowerCase ''snack'' = ''evening'' \<or> toLowerCase ''snack'' = ''snack''"
    by code_simp
  show ?thesis
    using getMenuTool_func_evening_or_snack [OF a b] getMenuTool_func_evening_or_snack [OF c d]
    by metis
qed

section \<open>Lowercasing and trimming\<close>

lemma trim_Nil: "trim [] = []"
  by (simp add: trim_def)

lemma set_trim: "set (trim s) \<subseteq> set s"
proof -
  have "set (trim s) = set (dropWhile is_ws (rev (dropWhile is_ws s)))"
    by (simp add: trim_def)
  also have "\<dots> \<subseteq> set (rev (dropWhile is_ws s))" by (auto dest: set_dropWhileD)
  also have "\<dots> \<subseteq> set s" by (auto dest: set_dropWhileD)
  finally show ?thesis .
qed

lemma lower_unit_not_upper: "\<not> is_upper (lower_unit c)"
proof -
  have "(of_char c :: nat) < 256" by simp
  then show ?thesis
    by (auto simp: lower_unit_def is_upper_def Let_def)
qed

lemma normalized_not_upper:
  assumes "c \<in> set (trim (toLowerCase s))"
  shows "\<not> is_upper c"
proof -
  from assms have "c \<in> set (toLowerCase s)" using set_trim by blast
  then show ?thesis by (auto simp: toLowerCase_def lower_unit_not_upper)
qed

lemma is_ws_lower_unit: "is_ws (lower_unit c) = is_ws c"
proof -
  have "(of_char c :: nat) < 256" by simp
  then show ?thesis
    by (auto simp: lower_unit_def is_upper_def is_ws_def Let_def)
qed

lemma trim_padded:
  assumes "\<forall>c\<in>set l. is_ws c" and "\<forall>c\<in>set r. is_ws c"
    and "m \<noteq> []" and "\<not> is_ws (hd m)" and "\<not> is_ws (last m)"
  shows "trim (l @ m @ r) = m"
proof -
  obtain a as where m: "m = a # as" using assms(3) by (cases m) auto
  have "dropWhile is_ws (l @ m @ r) = m @ r"
    using assms(1,4) by (simp add: m)
  moreover have "dropWhile is_ws (rev r @ rev m) = rev m"
  proof -
    have "butlast m @ [last m] = m" using assms(3) by simp
    then have "rev (butlast m @ [last m]) = rev m" by (rule arg_cong)
    then have rm: "rev m = last m # rev (butlast m)" by simp
    have "dropWhile is_ws (rev r @ rev m) = dropWhile is_ws (rev m)"
      by (rule dropWhile_append2) (use assms(2) in auto)
    also have "\<dots> = rev m"
    proof -
      have "dropWhile is_ws (last m # rev (butlast m)) = last m # rev (butlast m)"
        using assms(5) by simp
      then show ?thesis by (simp only: rm [symmetric])
    qed
    finally show ?thesis .
  qed
  ultimately show ?thesis by (simp add: trim_def)
qed

lemma not_includes_known:
  "\<not> str_includes ''breakfast'' ''evening''" "\<not> str_includes ''breakfast'' ''snack''"
  "\<not> str_includes ''lunch'' ''evening''" "\<not> str_includes ''lunch'' ''snack''"
  "\<not> str_includes ''dinner'' ''evening''" "\<not> str_includes ''dinner'' ''snack''"
  by simp_all

text \<open>
  Padding a word with white space and changing the case of its letters does not change
  what it is normalised to.
\<close>

lemma normalize_padded:
  assumes "\<forall>c\<in>set l. is_ws c" and "\<forall>c\<in>set r. is_ws c"
    and "toLowerCase m = k" and "k \<noteq> []" and "\<not> is_ws (hd k)" and "\<not> is_ws (last k)"
  shows "trim (toLowerCase (l @ m @ r)) = k"
proof -
  have "\<forall>c\<in>set (toLowerCase l). is_ws c" and "\<forall>c\<in>set (toLowerCase r). is_ws c"
    using assms(1,2) by (auto simp: toLowerCase_def is_ws_lower_unit)
  then have "trim (toLowerCase l @ k @ toLowerCase r) = k"
    using assms(4-6) by (rule trim_padded)
  then show ?thesis using assms(3) by (simp add: toLowerCase_append)
qed


section \<open>The menu tool: breakfast, lunch and dinner\<close>

text \<open>
  Claim C2. A category that equals "breakfast", "lunch" or "dinner" after lowercasing and
  trimming gets exactly the string configured for that key, whatever the letter case and
  the surrounding white space of the input were.
\<close>

theorem getMenuTool_func_known_category:
  "(trim (toLowerCase category) = ''breakfast'' \<longrightarrow>
      getMenuTool_func category = Str ''Paratha, Tea, Fruits, Bread with Butter'')
   \<and> (trim (toLowerCase category) = ''lunch'' \<longrightarrow>
      getMenuTool_func category = Str ''Rice, Dal, Curry, Roti, Salad'')
   \<and> (trim (toLowerCase category) = ''dinner'' \<longrightarrow>
      getMenuTool_func category = Str ''Biryani, Raita, Papad, Salad'')"
  by (simp add: getMenuTool_func_def not_includes_known get_property_def menus_def)

text \<open>Three inputs in mixed case, padded with spaces, a tab and a line feed.\<close>

theorem getMenuTool_func_known_category_witness:
  "trim (toLowerCase '' BreakFast  '') = ''breakfast''
   \<and> getMenuTool_func '' BreakFast  '' = Str ''Paratha, Tea, Fruits, Bread with Butter''
   \<and> trim (toLowerCase ''LUNCH'') = ''lunch''
   \<and> getMenuTool_func ''LUNCH'' = Str ''Rice, Dal, Curry, Roti, Salad''
   \<and> trim (toLowerCase [CHR 0x09, CHR ''d'', CHR ''i'', CHR ''N'', CHR ''n'', CHR ''e'', CHR ''r'', CHR 0x0A])
       = ''dinner''
   \<and> getMenuTool_func [CHR 0x09, CHR ''d'', CHR ''i'', CHR ''N'', CHR ''n'', CHR ''e'', CHR ''r'', CHR 0x0A]
       = Str ''Biryani, Raita, Papad, Salad''"
proof -
  have a: "trim (toLowerCase '' BreakFast  '') = ''breakfast''" by code_simp
  have b: "trim (toLowerCase ''LUNCH'') = ''lunch''" by code_simp
  have c: "trim (toLowerCase [CHR 0x09, CHR ''d'', CHR ''i'', CHR ''N'', CHR ''n'', CHR ''e'', CHR ''r'', CHR 0x0A])
       = ''dinner''" by code_simp
  show ?thesis
    using a b c getMenuTool_func_known_category [of "'' BreakFast  ''"]
      getMenuTool_func_known_category [of "''LUNCH''"]
      getMenuTool_func_known_category
        [of "[CHR 0x09, CHR ''d'', CHR ''i'', CHR ''N'', CHR ''n'', CHR ''e'', CHR ''r'', CHR 0x0A]"]
    by blast
qed

section \<open>The menu tool: keys inherited from the prototype\<close>

text \<open>
  A normalised category holds no uppercase letter, so of the inherited keys only
  \<open>constructor\<close> and \<open>__proto__\<close> can be read.
\<close>

lemma inherited_keys_lowercase:
  assumes "k = trim (toLowerCase category)" and "k \<noteq> ''constructor''" and "k \<noteq> ''__proto__''"
  shows "map_of object_prototype k = None"
proof -
  have up: "\<And>c. is_upper c \<Longrightarrow> c \<notin> set k"
    using assms(1) normalized_not_upper by blast
  have "is_upper CHR ''G''" "is_upper CHR ''S''" "is_upper CHR ''O''" "is_upper CHR ''P''"
    "is_upper CHR ''I''" "is_upper CHR ''L''"
    by (simp_all add: is_upper_def)
  then have no: "CHR ''G'' \<notin> set k" "CHR ''S'' \<notin> set k" "CHR ''O'' \<notin> set k"
    "CHR ''P'' \<notin> set k" "CHR ''I'' \<notin> set k" "CHR ''L'' \<notin> set k"
    by (simp_all add: up)
  have 1: "k \<noteq> ''__defineGetter__''" using no(1) by auto
  have 2: "k \<noteq> ''__defineSetter__''" using no(2) by auto
  have 3: "k \<noteq> ''__lookupGetter__''" using no(1) by auto
  have 4: "k \<noteq> ''__lookupSetter__''" using no(2) by auto
  have 5: "k \<noteq> ''hasOwnProperty''" using no(3) by auto
  have 6: "k \<noteq> ''isPrototypeOf''" using no(4) by auto
  have 7: "k \<noteq> ''propertyIsEnumerable''" using no(5) by auto
  have 8: "k \<noteq> ''toLocaleString''" using no(6) by auto
  have 9: "k \<noteq> ''toString''" using no(2) by auto
  have 10: "k \<noteq> ''valueOf''" using no(3) by auto
  show ?thesis
    using assms(2,3) 1 2 3 4 5 6 7 8 9 10 by (simp add: object_prototype_def)
qed

lemma own_keys_none:
  assumes "k \<notin> {''breakfast'', ''lunch'', ''evening'', ''evening snacks'', ''dinner''}"
  shows "map_of menus k = None"
  using assms by (simp add: menus_def)

lemma get_property_undefined:
  assumes "map_of menus k = None" and "map_of object_prototype k = None"
  shows "get_property menus k = Undefined"
  using assms by (simp add: get_property_def)

lemma getMenuTool_func_else:
  assumes "\<not> str_includes (trim (toLowerCase category)) ''evening''"
    and "\<not> str_includes (trim (toLowerCase category)) ''snack''"
  shows "getMenuTool_func category =
         (if truthy (get_property menus (trim (toLowerCase category)))
          then get_property menus (trim (toLowerCase category)) else Str fallback_message)"
  using assms unfolding getMenuTool_func_def Let_def by (simp only: if_False simp_thms)

lemma getMenuTool_func_then:
  assumes "str_includes (trim (toLowerCase category)) ''evening''
         \<or> str_includes (trim (toLowerCase category)) ''snack''"
  shows "getMenuTool_func category = get_property menus ''evening''"
  using assms unfolding getMenuTool_func_def Let_def by (simp only: if_True)

text \<open>
  The fallback message is returned for every category that is no own key, contains
  neither "evening" nor "snack", and is not one of the two inherited keys.
\<close>

lemma getMenuTool_func_fallback_unless_inherited:
  assumes "k = trim (toLowerCase category)"
    and "\<not> str_includes k ''evening''" and "\<not> str_includes k ''snack''"
    and "k \<notin> {''breakfast'', ''lunch'', ''evening'', ''evening snacks'', ''dinner''}"
    and "k \<noteq> ''constructor''" and "k \<noteq> ''__proto__''"
  shows "getMenuTool_func category = Str fallback_message"
proof -
  have "map_of menus k = None" using assms(4) by (rule own_keys_none)
  moreover have "map_of object_prototype k = None"
    using assms(1,5,6) by (rule inherited_keys_lowercase)
  ultimately have u: "get_property menus k = Undefined" by (rule get_property_undefined)
  have "getMenuTool_func category =
        (if truthy (get_property menus k) then get_property menus k else Str fallback_message)"
    using assms(2,3) unfolding assms(1) by (rule getMenuTool_func_else)
  then show ?thesis by (simp only: u truthy.simps if_False)
qed

lemma own_values_strings:
  "map_of menus k = None \<or> (\<exists>s. map_of menus k = Some (Str s))"
  by (simp add: menus_def)

lemma evening_is_string: "is_string (get_property menus ''evening'')"
  by (simp add: get_property_def menus_def)

lemma get_property_string_or_undefined:
  assumes "map_of object_prototype k = None"
  shows "is_string (get_property menus k) \<or> get_property menus k = Undefined"
proof -
  consider "map_of menus k = None" | s where "map_of menus k = Some (Str s)"
    using own_values_strings [of k] by auto
  then show ?thesis
  proof cases
    case 1
    then have "get_property menus k = Undefined"
      using assms by (rule get_property_undefined)
    then show ?thesis by simp
  next
    case 2
    then have "get_property menus k = Str s" by (simp add: get_property_def)
    then show ?thesis by simp
  qed
qed

text \<open>Apart from the two inherited keys, the result is always a string.\<close>

lemma getMenuTool_func_string_unless_inherited:
  assumes "trim (toLowerCase category) \<noteq> ''constructor''"
    and "trim (toLowerCase category) \<noteq> ''__proto__''"
  shows "is_string (getMenuTool_func category)"
proof (cases "str_includes (trim (toLowerCase category)) ''evening''
            \<or> str_includes (trim (toLowerCase category)) ''snack''")
  case True
  then have "getMenuTool_func category = get_property menus ''evening''"
    by (rule getMenuTool_func_then)
  then show ?thesis by (simp only: evening_is_string)
next
  case False
  define k where "k = trim (toLowerCase category)"
  have "map_of object_prototype k = None"
    using k_def assms [folded k_def] by (rule inherited_keys_lowercase)
  then have sv: "is_string (get_property menus k) \<or> get_property menus k = Undefined"
    by (rule get_property_string_or_undefined)
  have "getMenuTool_func category =
        (if truthy (get_property menus k) then get_property menus k else Str fallback_message)"
    unfolding k_def using False by (intro getMenuTool_func_else) simp_all
  moreover have "is_string (if truthy (get_property menus k) then get_property menus k
                            else Str fallback_message)"
    using sv by auto
  ultimately show ?thesis by (simp only:)
qed

lemma constructor_normalized: "trim (toLowerCase ''constructor'') = ''constructor''"
  by code_simp

lemma constructor_value: "getMenuTool_func ''constructor'' = BuiltinFunction ''Object''"
  by code_simp

lemma proto_value: "getMenuTool_func ''__proto__'' = BuiltinObject ''Object.prototype''"
  by code_simp

text \<open>
  Claim C4. The claim: a category that is no configured key after lowercasing and
  trimming, and contains neither "evening" nor "snack", gets the fallback message. At the
  category "constructor" all three conditions hold, and the function returns the
  inherited built-in function \<open>Object\<close>, not the fallback message.
\<close>

theorem getMenuTool_func_constructor_not_fallback:
  "trim (toLowerCase ''constructor'') = ''constructor''
   \<and> map_of menus ''constructor'' = None
   \<and> str_includes ''constructor'' ''evening'' = False
   \<and> str_includes ''constructor'' ''snack'' = False
   \<and> getMenuTool_func ''constructor'' = BuiltinFunction ''Object''
   \<and> getMenuTool_func ''constructor'' \<noteq> Str fallback_message"
proof -
  have "map_of menus ''constructor'' = None" by (simp add: menus_def)
  moreover have "str_includes ''constructor'' ''evening'' = False" by simp
  moreover have "str_includes ''constructor'' ''snack'' = False" by simp
  ultimately show ?thesis
    by (simp only: constructor_normalized constructor_value jsval.distinct simp_thms)
qed

text \<open>
  Claim C5. The claim: for every category string the tool function returns a string. At
  the categories "constructor" and "__proto__" the result is not a string.
\<close>

theorem getMenuTool_func_result_not_string:
  "is_string (getMenuTool_func ''constructor'') = False
   \<and> is_string (getMenuTool_func ''__proto__'') = False"
  by (simp only: constructor_value proto_value is_string.simps simp_thms)

section \<open>The chat endpoint: the three ways through the validation\<close>

lemma trim_nonempty: "trim s \<noteq> [] \<Longrightarrow> s \<noteq> []"
  by (auto simp: trim_def)


lemma chat_handler_invalid:
  assumes "read_input body = Inr userInput"
    and "js_not userInput \<or> call_trim userInput = Inr []"
  shows "chat_handler executor_invoke body =
         ([ConsoleLog_UserInput userInput], Responded 400 (output_body invalid_input_message))"
  using assms by (auto simp: chat_handler_def Let_def)

lemma chat_handler_valid:
  assumes "read_input body = Inr (Some (JStr s))" and "trim s \<noteq> []"
  shows "chat_handler executor_invoke body =
         (case executor_invoke (Some (JStr s)) of
            Inl err \<Rightarrow>
              ([ConsoleLog_UserInput (Some (JStr s)), ExecutorInvoke (Some (JStr s)), ConsoleError err],
               Responded 500 (output_body retry_message))
          | Inr response \<Rightarrow>
              ([ConsoleLog_UserInput (Some (JStr s)), ExecutorInvoke (Some (JStr s)),
                ConsoleLog_AgentResponse response],
               interpret_result response))"
  using assms trim_nonempty [OF assms(2)]
  by (simp add: chat_handler_def Let_def split: sum.splits)

lemma chat_handler_type_error:
  assumes "read_input body = Inr userInput"
    and "\<not> js_not userInput" and "\<forall>s. userInput \<noteq> Some (JStr s)"
  shows "chat_handler executor_invoke body =
         ([ConsoleLog_UserInput userInput],
          Rejected (TypeError ''userInput.trim is not a function''))"
proof -
  have "call_trim userInput = Inl (TypeError ''userInput.trim is not a function'')"
    using assms(3) by (cases userInput rule: call_trim.cases) simp_all
  then show ?thesis using assms(1,2) by (simp add: chat_handler_def Let_def)
qed

lemma read_input_example: "read_input (Some (JObj [(''input'', v)])) = Inr (Some v)"
  by simp

lemma call_trim_blank:
  assumes "trim s = []"
  shows "js_not (Some (JStr s)) \<or> call_trim (Some (JStr s)) = Inr []"
  using assms by simp

section \<open>The chat endpoint: validation and thrown errors\<close>


text \<open>
  When the read of \<open>req.body.input\<close> succeeds and gives \<open>undefined\<close> or a string that
  is blank after trimming, the handler responds 400 with
  \<open>{output: "Please provide a valid input."}\<close>. Its only other effect is the log of
  the input: the executor is not invoked.
\<close>

lemma chat_handler_parsed_missing_or_blank:
  assumes "read_input body = Inr userInput"
    and "userInput = None \<or> (\<exists>s. userInput = Some (JStr s) \<and> trim s = [])"
  shows "chat_handler executor_invoke body =
           ([ConsoleLog_UserInput userInput],
            Responded 400 (JObj [(''output'', JStr ''Please provide a valid input.'')]))
       \<and> (\<forall>u. ExecutorInvoke u \<notin> set (fst (chat_handler executor_invoke body)))"
proof -
  have "js_not userInput \<or> call_trim userInput = Inr []"
    using assms(2) call_trim_blank by auto
  with assms(1) have "chat_handler executor_invoke body =
         ([ConsoleLog_UserInput userInput], Responded 400 (output_body invalid_input_message))"
    by (rule chat_handler_invalid)
  then show ?thesis by (simp add: output_body_def invalid_input_message_def)
qed

text \<open>A body with a blank input and a body without the field.\<close>

lemma chat_handler_parsed_missing_or_blank_example:
  "chat_handler (throwing ''unreachable'') (Some (JObj [(''input'', JStr ''   '')])) =
       ([ConsoleLog_UserInput (Some (JStr ''   ''))],
        Responded 400 (JObj [(''output'', JStr ''Please provide a valid input.'')]))
   \<and> chat_handler (throwing ''unreachable'') (Some (JObj [])) =
       ([ConsoleLog_UserInput None],
        Responded 400 (JObj [(''output'', JStr ''Please provide a valid input.'')]))"
proof -
  have t: "trim ''   '' = []" by code_simp
  have a: "read_input (Some (JObj [(''input'', JStr ''   '')])) = Inr (Some (JStr ''   ''))"
    by simp
  have b: "read_input (Some (JObj [])) = Inr None" by simp
  show ?thesis
    using t chat_handler_parsed_missing_or_blank [OF a, of "throwing ''unreachable''"]
      chat_handler_parsed_missing_or_blank [OF b, of "throwing ''unreachable''"]
    by simp
qed

text \<open>
  Claim C7. For a non-blank input, when the executor throws \<open>err\<close>, the handler logs
  \<open>err\<close> with \<open>console.error\<close> and responds 500 with the fixed retry message. The
  body is the same for every \<open>err\<close>, so nothing of the error reaches it.
\<close>

theorem chat_handler_executor_throws:
  assumes "read_input body = Inr (Some (JStr s))"
    and "trim s \<noteq> []" and "executor_invoke (Some (JStr s)) = Inl err"
  shows "chat_handler executor_invoke body =
           ([ConsoleLog_UserInput (Some (JStr s)), ExecutorInvoke (Some (JStr s)),
             ConsoleError err],
            Responded 500
              (JObj [(''output'',
                      JStr ''Sorry, something went wrong. Please try again with a specific menu request.'')]))"
  using assms(3)
  by (simp add: chat_handler_valid [OF assms(1,2)] output_body_def retry_message_def)

text \<open>An executor that throws a connection error.\<close>

theorem chat_handler_executor_throws_witness:
  "read_input (Some (JObj [(''input'', JStr ''what is for dinner?'')]))
     = Inr (Some (JStr ''what is for dinner?''))
   \<and> trim ''what is for dinner?'' \<noteq> []
   \<and> throwing ''ECONNREFUSED 10.0.0.1'' (Some (JStr ''what is for dinner?'')) = Inl ''ECONNREFUSED 10.0.0.1''
   \<and> chat_handler (throwing ''ECONNREFUSED 10.0.0.1'')
         (Some (JObj [(''input'', JStr ''what is for dinner?'')])) =
       ([ConsoleLog_UserInput (Some (JStr ''what is for dinner?'')),
         ExecutorInvoke (Some (JStr ''what is for dinner?'')),
         ConsoleError ''ECONNREFUSED 10.0.0.1''],
        Responded 500
          (JObj [(''output'',
                  JStr ''Sorry, something went wrong. Please try again with a specific menu request.'')]))"
proof -
  have a: "trim ''what is for dinner?'' \<noteq> []" by code_simp
  have b: "throwing ''ECONNREFUSED 10.0.0.1'' (Some (JStr ''what is for dinner?''))
           = (Inl ''ECONNREFUSED 10.0.0.1'' :: string + agent_result)"
    by (simp add: throwing_def)
  show ?thesis
    using a b chat_handler_executor_throws
      [of "Some (JObj [(''input'', JStr ''what is for dinner?'')])" "''what is for dinner?''"
          "throwing ''ECONNREFUSED 10.0.0.1''" "''ECONNREFUSED 10.0.0.1''"]
    by simp
qed

text \<open>
  Claim C1. The claim: every request gets a response whose body is \<open>{output: string}\<close>.
  For the body \<open>{"input": 5}\<close> the input is truthy and has no \<open>trim\<close>, so
  \<open>userInput.trim()\<close> throws before the \<open>try\<close> block: the handler sends no
  response at all. The lemma \<open>chat_handler_responds_for_strings\<close> below shows the
  contract for every request whose body was read and whose input is absent or a string.
\<close>

theorem chat_handler_non_string_input:
  "chat_handler executor_invoke (Some (JObj [(''input'', JNum 5)])) =
     ([ConsoleLog_UserInput (Some (JNum 5))],
      Rejected (TypeError ''userInput.trim is not a function''))"
  by (rule chat_handler_type_error [of _ "Some (JNum 5)"]) simp_all

lemma interpret_result_shape:
  "\<exists>status text. interpret_result r = Responded status (output_body text)
                   \<and> (status = 200 \<or> status = 500)"
  by (auto simp: interpret_result_def split: option.splits)

lemma is_chat_response_output_body: "is_chat_response (output_body text)"
  by (simp add: output_body_def)

lemma chat_handler_responds_for_strings:
  assumes "read_input body = Inr userInput"
    and "userInput = None \<or> (\<exists>s. userInput = Some (JStr s))"
  shows "\<exists>status text. snd (chat_handler executor_invoke body)
                          = Responded status (output_body text)
                        \<and> is_chat_response (output_body text)
                        \<and> (status = 200 \<or> status = 400 \<or> status = 500)"
proof -
  have "js_not userInput \<or> call_trim userInput = Inr []
      \<or> (\<exists>s. userInput = Some (JStr s) \<and> trim s \<noteq> [])"
    using assms(2) by auto
  then show ?thesis
  proof (elim disjE exE conjE)
    assume "js_not userInput"
    then show ?thesis
      using assms(1) by (auto simp: chat_handler_invalid is_chat_response_output_body)
  next
    assume "call_trim userInput = Inr []"
    then show ?thesis
      using assms(1) by (auto simp: chat_handler_invalid is_chat_response_output_body)
  next
    fix s
    assume u: "userInput = Some (JStr s)" and t: "trim s \<noteq> []"
    have rd: "read_input body = Inr (Some (JStr s))" using assms(1) u by simp
    show ?thesis
    proof (cases "executor_invoke (Some (JStr s))")
      case (Inl err)
      then show ?thesis
        by (auto simp: chat_handler_valid [OF rd t] is_chat_response_output_body)
    next
      case (Inr r)
      then show ?thesis
        using interpret_result_shape [of r]
        by (auto simp: chat_handler_valid [OF rd t] is_chat_response_output_body)
    qed
  qed
qed

lemma interpret_result_primary:
  assumes "output r = Some out" and "out \<noteq> []" and "\<not> str_includes out sentinel"
  shows "interpret_result r = Responded 200 (output_body out)"
  using assms by (simp add: interpret_result_def primary_output_def)

lemma primary_output_None:
  assumes "output r = None \<or> output r = Some []
         \<or> (\<exists>out. output r = Some out \<and> str_includes out sentinel)"
  shows "primary_output r = None"
  using assms by (auto simp: primary_output_def)

lemma fallback_output_Some:
  assumes "intermediateSteps r = Some steps" and "steps \<noteq> []"
    and "observation (last steps) = Some obs" and "obs \<noteq> []"
  shows "fallback_output r = Some obs"
  using assms by (simp add: fallback_output_def last_conv_nth)

lemma fallback_output_None:
  assumes "intermediateSteps r = None \<or> intermediateSteps r = Some []
         \<or> (\<exists>steps. intermediateSteps r = Some steps \<and> steps \<noteq> []
               \<and> (observation (last steps) = None \<or> observation (last steps) = Some []))"
  shows "fallback_output r = None"
  using assms by (auto simp: fallback_output_def last_conv_nth)

lemma chat_handler_resolved:
  assumes "read_input body = Inr (Some (JStr s))"
    and "trim s \<noteq> []" and "executor_invoke (Some (JStr s)) = Inr r"
  shows "snd (chat_handler executor_invoke body) = interpret_result r"
  using assms(3) by (simp add: chat_handler_valid [OF assms(1,2)])

lemma read_input_hi: "read_input (Some (JObj [(''input'', JStr ''hi'')])) = Inr (Some (JStr ''hi''))"
  by simp

lemma trim_hi: "trim ''hi'' \<noteq> []"
  by code_simp

section \<open>The chat endpoint: interpreting the agent result\<close>

text \<open>
  Claim C8, amended. When the result's \<open>output\<close> is present, not empty and does not
  contain the sentinel, the handler responds 200 with \<open>{output: result.output}\<close>.
  Nothing is assumed about \<open>intermediateSteps\<close>, so the response does not depend on
  it.
\<close>

theorem chat_handler_primary_success:
  assumes "read_input body = Inr (Some (JStr s))"
    and "trim s \<noteq> []" and "executor_invoke (Some (JStr s)) = Inr r"
    and "output r = Some out" and "out \<noteq> []" and "\<not> str_includes out sentinel"
  shows "snd (chat_handler executor_invoke body)
         = Responded 200 (JObj [(''output'', JStr out)])"
proof -
  have "interpret_result r = Responded 200 (output_body out)"
    using assms(4-6) by (rule interpret_result_primary)
  moreover have "snd (chat_handler executor_invoke body) = interpret_result r"
    using assms(1-3) by (rule chat_handler_resolved)
  ultimately show ?thesis by (simp add: output_body_def)
qed

text \<open>A result with an answer, and with a step whose observation is not used.\<close>

theorem chat_handler_primary_success_witness:
  "read_input (Some (JObj [(''input'', JStr ''hi'')])) = Inr (Some (JStr ''hi''))
   \<and> trim ''hi'' \<noteq> []
   \<and> str_includes ''Biryani, Raita, Papad, Salad'' sentinel = False
   \<and> snd (chat_handler
            (resolving \<lparr>output = Some ''Biryani, Raita, Papad, Salad'',
                        intermediateSteps =
                          Some [\<lparr>action = ''getMenuTool'', observation = Some ''ignored''\<rparr>]\<rparr>
              :: json option \<Rightarrow> string + agent_result)
            (Some (JObj [(''input'', JStr ''hi'')])))
       = Responded 200 (JObj [(''output'', JStr ''Biryani, Raita, Papad, Salad'')])"
proof -
  have a: "\<not> str_includes ''Biryani, Raita, Papad, Salad'' sentinel" by code_simp
  show ?thesis
    using a read_input_hi trim_hi
      chat_handler_primary_success
        [of "Some (JObj [(''input'', JStr ''hi'')])" "''hi''"
            "resolving \<lparr>output = Some ''Biryani, Raita, Papad, Salad'',
                        intermediateSteps =
                          Some [\<lparr>action = ''getMenuTool'', observation = Some ''ignored''\<rparr>]\<rparr>"
            "\<lparr>output = Some ''Biryani, Raita, Papad, Salad'',
              intermediateSteps =
                Some [\<lparr>action = ''getMenuTool'', observation = Some ''ignored''\<rparr>]\<rparr>"
            "''Biryani, Raita, Papad, Salad''"]
    by (simp add: resolving_def)
qed

text \<open>
  Claim C8 as stated fails: in the result \<open>{output: ""}\<close> the field is present and
  does not contain the sentinel, and the handler responds 500, not 200 with
  \<open>{output: ""}\<close>.
\<close>

theorem chat_handler_empty_output_counterexample:
  "output \<lparr>output = Some [], intermediateSteps = None\<rparr> = Some []
   \<and> str_includes [] sentinel = False
   \<and> snd (chat_handler
            (resolving \<lparr>output = Some [], intermediateSteps = None\<rparr>
              :: json option \<Rightarrow> string + agent_result)
            (Some (JObj [(''input'', JStr ''hi'')])))
       = Responded 500 (output_body could_not_process_message)
   \<and> snd (chat_handler
            (resolving \<lparr>output = Some [], intermediateSteps = None\<rparr>
              :: json option \<Rightarrow> string + agent_result)
            (Some (JObj [(''input'', JStr ''hi'')])))
       \<noteq> Responded 200 (JObj [(''output'', JStr [])])"
proof -
  have a: "str_includes [] sentinel = False" by code_simp
  have b: "interpret_result \<lparr>output = Some [], intermediateSteps = None\<rparr>
           = Responded 500 (output_body could_not_process_message)"
    by (simp add: interpret_result_def primary_output_def fallback_output_def)
  have c: "snd (chat_handler
            (resolving \<lparr>output = Some [], intermediateSteps = None\<rparr>
              :: json option \<Rightarrow> string + agent_result)
            (Some (JObj [(''input'', JStr ''hi'')])))
           = interpret_result \<lparr>output = Some [], intermediateSteps = None\<rparr>"
    using read_input_hi trim_hi by (rule chat_handler_resolved) (simp add: resolving_def)
  have d: "output \<lparr>output = Some [], intermediateSteps = None\<rparr> = Some []" by simp
  have e: "Responded 500 (output_body could_not_process_message)
           \<noteq> Responded 200 (JObj [(''output'', JStr [])])"
    by simp
  show ?thesis unfolding c b using a d e by (intro conjI) simp_all
qed

lemma interpret_result_fallback:
  assumes "primary_output r = None" and "fallback_output r = Some obs"
  shows "interpret_result r = Responded 200 (output_body obs)"
  using assms by (simp add: interpret_result_def)

lemma interpret_result_final:
  assumes "primary_output r = None" and "fallback_output r = None"
  shows "interpret_result r = Responded 500 (output_body could_not_process_message)"
  using assms by (simp add: interpret_result_def)

text \<open>
  Claim C9, amended. When the primary condition fails (\<open>output\<close> absent, empty or
  containing the sentinel), \<open>intermediateSteps\<close> is a non-empty sequence and the
  observation of its last step is present and not empty, the handler responds 200 with
  \<open>{output: observation}\<close>.
\<close>

theorem chat_handler_fallback_observation:
  assumes "read_input body = Inr (Some (JStr s))"
    and "trim s \<noteq> []" and "executor_invoke (Some (JStr s)) = Inr r"
    and "output r = None \<or> output r = Some []
       \<or> (\<exists>out. output r = Some out \<and> str_includes out sentinel)"
    and "intermediateSteps r = Some steps" and "steps \<noteq> []"
    and "observation (last steps) = Some obs" and "obs \<noteq> []"
  shows "snd (chat_handler executor_invoke body)
         = Responded 200 (JObj [(''output'', JStr obs)])"
proof -
  have "primary_output r = None" using assms(4) by (rule primary_output_None)
  moreover have "fallback_output r = Some obs" using assms(5-8) by (rule fallback_output_Some)
  ultimately have "interpret_result r = Responded 200 (output_body obs)"
    by (rule interpret_result_fallback)
  moreover have "snd (chat_handler executor_invoke body) = interpret_result r"
    using assms(1-3) by (rule chat_handler_resolved)
  ultimately show ?thesis by (simp add: output_body_def)
qed

text \<open>The example of the specification: the agent gave up, the last step holds the menu.\<close>

theorem chat_handler_fallback_observation_witness:
  "read_input (Some (JObj [(''input'', JStr ''hi'')])) = Inr (Some (JStr ''hi''))
   \<and> trim ''hi'' \<noteq> []
   \<and> str_includes ''agent stopped due to max iterations.'' sentinel
   \<and> snd (chat_handler
            (resolving \<lparr>output = Some ''agent stopped due to max iterations.'',
                        intermediateSteps =
                          Some [\<lparr>action = ''getMenuTool'', observation = None\<rparr>,
                                \<lparr>action = ''getMenuTool'',
                                  observation = Some ''Samosa, Chutney, Tea, Biscuits''\<rparr>]\<rparr>
              :: json option \<Rightarrow> string + agent_result)
            (Some (JObj [(''input'', JStr ''hi'')])))
       = Responded 200 (JObj [(''output'', JStr ''Samosa, Chutney, Tea, Biscuits'')])"
proof -
  have a: "str_includes ''agent stopped due to max iterations.'' sentinel" by code_simp
  show ?thesis
    using a read_input_hi trim_hi
      chat_handler_fallback_observation
        [of "Some (JObj [(''input'', JStr ''hi'')])" "''hi''"
            "resolving \<lparr>output = Some ''agent stopped due to max iterations.'',
                        intermediateSteps =
                          Some [\<lparr>action = ''getMenuTool'', observation = None\<rparr>,
                                \<lparr>action = ''getMenuTool'',
                                  observation = Some ''Samosa, Chutney, Tea, Biscuits''\<rparr>]\<rparr>"
            "\<lparr>output = Some ''agent stopped due to max iterations.'',
              intermediateSteps =
                Some [\<lparr>action = ''getMenuTool'', observation = None\<rparr>,
                      \<lparr>action = ''getMenuTool'',
                        observation = Some ''Samosa, Chutney, Tea, Biscuits''\<rparr>]\<rparr>"
            "[\<lparr>action = ''getMenuTool'', observation = None\<rparr>,
              \<lparr>action = ''getMenuTool'',
                observation = Some ''Samosa, Chutney, Tea, Biscuits''\<rparr>]"
            "''Samosa, Chutney, Tea, Biscuits''"]
    by (simp add: resolving_def)
qed

text \<open>
  Claim C9 as stated fails: with no \<open>output\<close> and one step whose observation field
  is present but empty, the handler responds 500, not 200 with that observation.
\<close>

theorem chat_handler_empty_observation_counterexample:
  "output \<lparr>output = None,
            intermediateSteps = Some [\<lparr>action = ''getMenuTool'', observation = Some []\<rparr>]\<rparr>
     = None
   \<and> observation (last [\<lparr>action = ''getMenuTool'', observation = Some []\<rparr>]) = Some []
   \<and> snd (chat_handler
            (resolving \<lparr>output = None,
                        intermediateSteps =
                          Some [\<lparr>action = ''getMenuTool'', observation = Some []\<rparr>]\<rparr>
              :: json option \<Rightarrow> string + agent_result)
            (Some (JObj [(''input'', JStr ''hi'')])))
       = Responded 500 (output_body could_not_process_message)
   \<and> snd (chat_handler
            (resolving \<lparr>output = None,
                        intermediateSteps =
                          Some [\<lparr>action = ''getMenuTool'', observation = Some []\<rparr>]\<rparr>
              :: json option \<Rightarrow> string + agent_result)
            (Some (JObj [(''input'', JStr ''hi'')])))
       \<noteq> Responded 200 (JObj [(''output'', JStr [])])"
proof -
  have b: "interpret_result
             \<lparr>output = None,
               intermediateSteps = Some [\<lparr>action = ''getMenuTool'', observation = Some []\<rparr>]\<rparr>
           = Responded 500 (output_body could_not_process_message)"
    by (simp add: interpret_result_def primary_output_def fallback_output_def)
  have c: "snd (chat_handler
            (resolving \<lparr>output = None,
                        intermediateSteps =
                          Some [\<lparr>action = ''getMenuTool'', observation = Some []\<rparr>]\<rparr>
              :: json option \<Rightarrow> string + agent_result)
            (Some (JObj [(''input'', JStr ''hi'')])))
           = interpret_result
               \<lparr>output = None,
                 intermediateSteps = Some [\<lparr>action = ''getMenuTool'', observation = Some []\<rparr>]\<rparr>"
    using read_input_hi trim_hi by (rule chat_handler_resolved) (simp add: resolving_def)
  show ?thesis unfolding c b by (intro conjI) simp_all
qed

text \<open>
  Claim C10. An empty \<open>output\<close> counts as absent: when \<open>output\<close> is the empty string
  and there is no last step, or the observation of the last step is absent or empty, the
  handler responds 500 with the "couldn't process" message.
\<close>

theorem chat_handler_empty_output_falls_through:
  assumes "read_input body = Inr (Some (JStr s))"
    and "trim s \<noteq> []" and "executor_invoke (Some (JStr s)) = Inr r"
    and "output r = Some []"
    and "intermediateSteps r = None \<or> intermediateSteps r = Some []
       \<or> (\<exists>steps. intermediateSteps r = Some steps \<and> steps \<noteq> []
             \<and> (observation (last steps) = None \<or> observation (last steps) = Some []))"
  shows "snd (chat_handler executor_invoke body)
         = Responded 500
             (JObj [(''output'',
                     JStr ''I couldn't process your request. Please try asking for a specific menu like 'breakfast menu' or 'evening snacks menu'.'')])"
proof -
  have "primary_output r = None" using assms(4) by (simp add: primary_output_def)
  moreover have "fallback_output r = None" using assms(5) by (rule fallback_output_None)
  ultimately have "interpret_result r = Responded 500 (output_body could_not_process_message)"
    by (rule interpret_result_final)
  moreover have "snd (chat_handler executor_invoke body) = interpret_result r"
    using assms(1-3) by (rule chat_handler_resolved)
  ultimately show ?thesis by (simp add: output_body_def could_not_process_message_def)
qed

text \<open>Two results with an empty output: last observation empty, last observation absent.\<close>

theorem chat_handler_empty_output_falls_through_witness:
  "read_input (Some (JObj [(''input'', JStr ''hi'')])) = Inr (Some (JStr ''hi''))
   \<and> trim ''hi'' \<noteq> []
   \<and> snd (chat_handler
            (resolving \<lparr>output = Some [],
                        intermediateSteps =
                          Some [\<lparr>action = ''getMenuTool'', observation = Some ''Rice''\<rparr>,
                                \<lparr>action = ''getMenuTool'', observation = Some []\<rparr>]\<rparr>
              :: json option \<Rightarrow> string + agent_result)
            (Some (JObj [(''input'', JStr ''hi'')])))
       = Responded 500
           (JObj [(''output'',
                   JStr ''I couldn't process your request. Please try asking for a specific menu like 'breakfast menu' or 'evening snacks menu'.'')])
   \<and> snd (chat_handler
            (resolving \<lparr>output = Some [],
                        intermediateSteps =
                          Some [\<lparr>action = ''getMenuTool'', observation = None\<rparr>]\<rparr>
              :: json option \<Rightarrow> string + agent_result)
            (Some (JObj [(''input'', JStr ''hi'')])))
       = Responded 500
           (JObj [(''output'',
                   JStr ''I couldn't process your request. Please try asking for a specific menu like 'breakfast menu' or 'evening snacks menu'.'')])"
proof -
  show ?thesis
    using read_input_hi trim_hi
      chat_handler_empty_output_falls_through
        [of "Some (JObj [(''input'', JStr ''hi'')])" "''hi''"
            "resolving \<lparr>output = Some [],
                        intermediateSteps =
                          Some [\<lparr>action = ''getMenuTool'', observation = Some ''Rice''\<rparr>,
                                \<lparr>action = ''getMenuTool'', observation = Some []\<rparr>]\<rparr>"
            "\<lparr>output = Some [],
              intermediateSteps =
                Some [\<lparr>action = ''getMenuTool'', observation = Some ''Rice''\<rparr>,
                      \<lparr>action = ''getMenuTool'', observation = Some []\<rparr>]\<rparr>"]
      chat_handler_empty_output_falls_through
        [of "Some (JObj [(''input'', JStr ''hi'')])" "''hi''"
            "resolving \<lparr>output = Some [],
                        intermediateSteps =
                          Some [\<lparr>action = ''getMenuTool'', observation = None\<rparr>]\<rparr>"
            "\<lparr>output = Some [],
              intermediateSteps =
                Some [\<lparr>action = ''getMenuTool'', observation = None\<rparr>]\<rparr>"]
    by (simp add: resolving_def)
qed

end
